theory Spec2Isabelle
  imports Main
begin

section \<open>Data model\<close>

text \<open>
  The tables of \<^verbatim>\<open>initDatabase\<close>: \<^verbatim>\<open>products\<close>, \<^verbatim>\<open>sales\<close>, \<^verbatim>\<open>sale_items\<close> and the ids of
  \<^verbatim>\<open>users\<close>. Quantities, prices and ids are integers. Columns that no modelled statement
  reads are left in the extension part of the records.
\<close>

datatype stock_status = in_stock | low_stock | out_of_stock

record product =
  name :: string
  quantity :: int
  min_stock :: int
  status :: stock_status

text \<open>
  A field of the request body as \<^verbatim>\<open>express.json\<close> hands it over: missing, or a JSON scalar.
  A number is an integer here; arrays and objects in a header field are not modelled.
\<close>

datatype jsvalue = JUndefined | JNull | JBool bool | JNum int | JStr string

text \<open>
  A row of \<^verbatim>\<open>sales\<close>. The columns filled from the request body hold the value that the
  handler binds to the statement; what SQLite's column affinity makes of a bound value (the
  text \<^verbatim>\<open>'0'\<close> becomes the number 0 in a REAL column) is not modelled.
\<close>

record sale =
  s_id :: int
  s_invoice_number :: string
  s_user_id :: int
  s_customer_name :: jsvalue
  s_subtotal :: jsvalue
  s_tax :: jsvalue
  s_discount :: jsvalue
  s_grand_total :: jsvalue
  s_payment_method :: jsvalue

record sale_item =
  si_id :: int
  si_sale_id :: int
  si_product_id :: int
  si_quantity :: int
  si_price :: int
  si_total :: int

text \<open>
  \<^verbatim>\<open>products\<close> is keyed by its primary key. \<^verbatim>\<open>sales_seq\<close> and \<^verbatim>\<open>sale_items_seq\<close> are the
  AUTOINCREMENT counters of the two tables; they are rows of a table and so belong to what a
  transaction rolls back.
\<close>

record tables =
  products :: "int \<rightharpoonup> product"
  sales :: "sale list"
  sale_items :: "sale_item list"
  users :: "int set"
  sales_seq :: int
  sale_items_seq :: int

text \<open>
  The shared connection \<^verbatim>\<open>db\<close>: the current tables, the tables as they were at BEGIN while a
  transaction is open, and the connection's \<^verbatim>\<open>last_insert_rowid()\<close>, which is not part of any
  transaction.
\<close>

record db =
  tabs :: tables
  txn :: "tables option"
  last_insert_rowid :: int

text \<open>The body of POST /api/sales. An item carries the numbers \<^verbatim>\<open>product_id\<close>,
  \<^verbatim>\<open>quantity\<close> (here \<open>item_quantity\<close>, the name \<open>quantity\<close> being the product column) and
  \<^verbatim>\<open>price\<close>; its \<^verbatim>\<open>total\<close> may be absent. \<^verbatim>\<open>items\<close> itself may be missing, something that is
  not an array, or an array.\<close>

record item =
  product_id :: int
  item_quantity :: int
  price :: int
  total :: "int option"

datatype items_field = ItemsAbsent | ItemsNotArray | ItemsArray "item list"

record sale_request =
  customer_name :: jsvalue
  items :: items_field
  subtotal :: jsvalue
  tax :: jsvalue
  discount :: jsvalue
  grand_total :: jsvalue
  payment_method :: jsvalue

datatype error =
    ValidationError string
  | ProductNotFound int
  | InsufficientStock string int int
  | TransactionFailure string
  | SaleNotFound

text \<open>What the client gets: one of the handler's responses, or none at all because the
  server process has exited (\<open>Crashed\<close>).\<close>

datatype response =
    Created string int nat jsvalue
  | Voided
  | Failed error
  | Crashed

section \<open>JavaScript values\<close>

text \<open>\<^verbatim>\<open>!v\<close> holds of \<^verbatim>\<open>undefined\<close>, \<^verbatim>\<open>null\<close>, \<^verbatim>\<open>false\<close>, the number 0 and the empty string,
  and of nothing else: the string \<^verbatim>\<open>'0'\<close> and every negative number are truthy.\<close>

definition truthy :: "jsvalue \<Rightarrow> bool" where
  "truthy v =
     (case v of JUndefined \<Rightarrow> False | JNull \<Rightarrow> False | JBool b \<Rightarrow> b
      | JNum n \<Rightarrow> n \<noteq> 0 | JStr s \<Rightarrow> s \<noteq> [])"

text \<open>\<^verbatim>\<open>v || d\<close>\<close>

definition js_or :: "jsvalue \<Rightarrow> jsvalue \<Rightarrow> jsvalue" where
  "js_or v d = (if truthy v then v else d)"

text \<open>\<^verbatim>\<open>item.total || d\<close> for the total of an item, a number or missing.\<close>

definition or_num :: "int option \<Rightarrow> int \<Rightarrow> int" where
  "or_num x d = (case x of None \<Rightarrow> d | Some n \<Rightarrow> if n = 0 then d else n)"

text \<open>
  JavaScript numbers are IEEE doubles. An integer of magnitude below \<open>2^53\<close> is a double;
  a larger one is rounded to 53 significant bits, to the nearest and on a tie to the even
  neighbour. (A result of magnitude \<open>2^1024\<close> or more would be \<^verbatim>\<open>Infinity\<close>, which has no
  counterpart here.) \<open>js_minus\<close> is the subtraction \<^verbatim>\<open>product.quantity - item.quantity\<close>.
\<close>

fun bit_length :: "nat \<Rightarrow> nat" where
  "bit_length n = (if n = 0 then 0 else Suc (bit_length (n div 2)))"

declare bit_length.simps [simp del]

definition round_double :: "int \<Rightarrow> int" where
  "round_double x =
     (let a = nat \<bar>x\<bar>; e = bit_length a in
      if e \<le> 53 then x
      else
        let ulp = 2 ^ (e - 53); q = a div ulp; r = a mod ulp;
            m = (if ulp < 2 * r \<or> (2 * r = ulp \<and> odd q) then q + 1 else q)
        in sgn x * int (m * ulp))"

definition js_minus :: "int \<Rightarrow> int \<Rightarrow> int" where
  "js_minus a b = round_double (a - b)"

section \<open>Stock status\<close>

text \<open>The three places that compute a status: sales.js lines 104-106, and the product editor's
  POST and PUT handlers, which first parse the form fields (\<^verbatim>\<open>parseInt(x) || d\<close>; a field that
  does not parse is \<open>None\<close>).\<close>

definition newStatus :: "int \<Rightarrow> int \<Rightarrow> stock_status" where
  "newStatus newQty minStock =
     (if newQty = 0 then out_of_stock
      else if newQty \<le> minStock then low_stock
      else in_stock)"

definition addProduct_status :: "int option \<Rightarrow> int option \<Rightarrow> stock_status" where
  "addProduct_status quantity_field min_stock_field =
     (let qty = or_num quantity_field 0;
          minStock = or_num min_stock_field 5
      in if qty = 0 then out_of_stock
         else if qty \<le> minStock then low_stock
         else in_stock)"

definition updateProduct_status :: "int option \<Rightarrow> int option \<Rightarrow> stock_status" where
  "updateProduct_status quantity_field min_stock_field =
     (let qty = or_num quantity_field 0;
          minStock = or_num min_stock_field 5
      in if qty = 0 then out_of_stock
         else if qty \<le> minStock then low_stock
         else in_stock)"

text \<open>The derivation as the specification words it, for comparison with the three above.\<close>

definition spec_deriveStatus :: "int \<Rightarrow> int \<Rightarrow> stock_status" where
  "spec_deriveStatus q m =
     (if q = 0 then out_of_stock
      else if 0 < q \<and> q \<le> m then low_stock
      else in_stock)"

section \<open>The statements the handlers run\<close>

text \<open>
  A statement either runs, giving the connection after it, or fails (\<open>None\<close>). Where the
  handler passes a callback, the callback gets the error. Where it passes none (every
  \<^verbatim>\<open>db.run\<close> of sales.js except COMMIT and the DELETE of the sale), the driver raises the
  failure as an \<^verbatim>\<open>error\<close> event that nothing listens to, and the server, which installs no
  handler for uncaught exceptions, exits. A SELECT does not fail here, so the \<^verbatim>\<open>err\<close> half of
  the tests \<^verbatim>\<open>err || !row\<close> and \<^verbatim>\<open>err || !product\<close> has no counterpart. One request is
  handled at a time.
\<close>

text \<open>What is left after the process has exited: the tables as last committed, to be opened
  by a fresh connection.\<close>

definition process_exit :: "db \<Rightarrow> db" where
  "process_exit d =
     \<lparr>tabs = (case txn d of None \<Rightarrow> tabs d | Some t \<Rightarrow> t), txn = None, last_insert_rowid = 0\<rparr>"

text \<open>BEGIN TRANSACTION fails inside a transaction; ROLLBACK and COMMIT fail outside one.\<close>

definition run_begin :: "db \<Rightarrow> db option" where
  "run_begin d = (case txn d of None \<Rightarrow> Some (d\<lparr>txn := Some (tabs d)\<rparr>) | Some _ \<Rightarrow> None)"

definition run_rollback :: "db \<Rightarrow> db option" where
  "run_rollback d = (case txn d of None \<Rightarrow> None | Some t \<Rightarrow> Some (d\<lparr>tabs := t, txn := None\<rparr>))"

definition run_commit :: "db \<Rightarrow> db \<times> bool" where
  "run_commit d = (case txn d of None \<Rightarrow> (d, True) | Some _ \<Rightarrow> (d\<lparr>txn := None\<rparr>, False))"

text \<open>\<^verbatim>\<open>db.run('ROLLBACK')\<close> followed at once by the response: the response is sent in any
  case.\<close>

definition rollback_or_exit :: "db \<Rightarrow> db" where
  "rollback_or_exit d = (case run_rollback d of None \<Rightarrow> process_exit d | Some d' \<Rightarrow> d')"

definition next_rowid :: "int \<Rightarrow> int list \<Rightarrow> int" where
  "next_rowid seq ids = foldr max ids seq + 1"

text \<open>INSERT INTO sales: \<^verbatim>\<open>invoice_number\<close> is UNIQUE, \<^verbatim>\<open>user_id\<close> references \<^verbatim>\<open>users\<close>
  (foreign keys are switched on), \<^verbatim>\<open>payment_method\<close> has a CHECK that only the three texts
  pass. The NOT NULL columns get truthy values or the handler's defaults.\<close>

definition sale_insertable :: "tables \<Rightarrow> string \<Rightarrow> int \<Rightarrow> jsvalue \<Rightarrow> bool" where
  "sale_insertable t ino uid pm =
     (ino \<notin> set (map s_invoice_number (sales t)) \<and> uid \<in> users t \<and>
      pm \<in> {JStr ''cash'', JStr ''card'', JStr ''online''})"

definition insert_sale ::
  "db \<Rightarrow> string \<Rightarrow> int \<Rightarrow> jsvalue \<Rightarrow> jsvalue \<Rightarrow> jsvalue \<Rightarrow> jsvalue \<Rightarrow> jsvalue \<Rightarrow> jsvalue
     \<Rightarrow> db option" where
  "insert_sale d ino uid cust sub tx disc gt pm =
     (let t = tabs d in
      if sale_insertable t ino uid pm then
        let rid = next_rowid (sales_seq t) (map s_id (sales t));
            row = \<lparr>s_id = rid, s_invoice_number = ino, s_user_id = uid, s_customer_name = cust,
                   s_subtotal = sub, s_tax = tx, s_discount = disc, s_grand_total = gt,
                   s_payment_method = pm\<rparr>
        in Some (d\<lparr>tabs := t\<lparr>sales := sales t @ [row], sales_seq := rid\<rparr>,
                   last_insert_rowid := rid\<rparr>)
      else None)"

text \<open>INSERT INTO sale_items: \<^verbatim>\<open>sale_id\<close> references \<^verbatim>\<open>sales\<close> and \<^verbatim>\<open>product_id\<close> references
  \<^verbatim>\<open>products\<close>.\<close>

definition insert_sale_item :: "db \<Rightarrow> int \<Rightarrow> int \<Rightarrow> int \<Rightarrow> int \<Rightarrow> int \<Rightarrow> db option" where
  "insert_sale_item d sid pid qty pr tot =
     (let t = tabs d in
      if sid \<in> set (map s_id (sales t)) \<and> pid \<in> dom (products t) then
        let rid = next_rowid (sale_items_seq t) (map si_id (sale_items t));
            row = \<lparr>si_id = rid, si_sale_id = sid, si_product_id = pid, si_quantity = qty,
                   si_price = pr, si_total = tot\<rparr>
        in Some (d\<lparr>tabs := t\<lparr>sale_items := sale_items t @ [row], sale_items_seq := rid\<rparr>,
                   last_insert_rowid := rid\<rparr>)
      else None)"

text \<open>UPDATE products SET quantity = ?, status = ? WHERE id = ?. It cannot fail: the status
  is one of the three the CHECK allows, and no matching row means no change.\<close>

definition update_stock :: "db \<Rightarrow> int \<Rightarrow> stock_status \<Rightarrow> int \<Rightarrow> db" where
  "update_stock d newQty st pid =
     (let t = tabs d in
      case products t pid of
        None \<Rightarrow> d
      | Some p \<Rightarrow> d\<lparr>tabs := t\<lparr>products := (products t)(pid \<mapsto> p\<lparr>quantity := newQty, status := st\<rparr>)\<rparr>\<rparr>)"

text \<open>UPDATE products SET quantity = quantity + ? WHERE id = ?\<close>

definition restore_stock :: "db \<Rightarrow> int \<Rightarrow> int \<Rightarrow> db" where
  "restore_stock d qty pid =
     (let t = tabs d in
      case products t pid of
        None \<Rightarrow> d
      | Some p \<Rightarrow> d\<lparr>tabs := t\<lparr>products := (products t)(pid \<mapsto> p\<lparr>quantity := quantity p + qty\<rparr>)\<rparr>\<rparr>)"

text \<open>DELETE FROM sale_items WHERE sale_id = ?\<close>

definition delete_sale_items :: "db \<Rightarrow> int \<Rightarrow> db" where
  "delete_sale_items d sid =
     (let t = tabs d in d\<lparr>tabs := t\<lparr>sale_items := filter (\<lambda>r. si_sale_id r \<noteq> sid) (sale_items t)\<rparr>\<rparr>)"

text \<open>DELETE FROM sales WHERE id = ?, with the number of rows it removed (\<^verbatim>\<open>this.changes\<close>);
  the sale's items go with it (ON DELETE CASCADE).\<close>

definition delete_sale :: "db \<Rightarrow> int \<Rightarrow> db \<times> nat" where
  "delete_sale d sid =
     (let t = tabs d in
      (d\<lparr>tabs := t\<lparr>sales := filter (\<lambda>r. s_id r \<noteq> sid) (sales t),
                    sale_items := filter (\<lambda>r. si_sale_id r \<noteq> sid) (sale_items t)\<rparr>\<rparr>,
       length (filter (\<lambda>r. s_id r = sid) (sales t))))"

section \<open>POST /api/sales\<close>

text \<open>
  BEGIN, the INSERT of the header and the SELECT of \<^verbatim>\<open>last_insert_rowid()\<close> are issued inside
  \<^verbatim>\<open>db.serialize\<close> and run in that order. The loop \<^verbatim>\<open>processNext\<close> is started from the callback
  of that SELECT, when \<^verbatim>\<open>db.serialize\<close> has returned and the connection is back in its parallel
  mode. One pass issues, from one callback and without waiting, the INSERT of its item, the
  UPDATE of the stock and, through the call of \<^verbatim>\<open>processNext\<close>, the SELECT of the next item
  (or COMMIT): the driver may run these three in any order. The schedule \<open>sched\<close> records the
  outcome that matters: \<open>sched k\<close> holds when the SELECT of pass \<open>k\<close> ran before the UPDATE of
  pass \<open>k - 1\<close>, so that it read the products as they were before that UPDATE (\<open>stale\<close>). The
  INSERT touches another table, and a COMMIT that runs before the INSERT or the UPDATE leaves
  them to be applied and committed on their own; the tables at the end are the same. The
  statements of a pass have all run when the callback of its SELECT issues the next ones.
\<close>

function processNext ::
  "(nat \<Rightarrow> bool) \<Rightarrow> db \<Rightarrow> (int \<rightharpoonup> product) \<Rightarrow> string \<Rightarrow> int \<Rightarrow> jsvalue \<Rightarrow> item list \<Rightarrow> nat
     \<Rightarrow> db \<times> response" where
  "processNext sched d stale invoiceNumber saleId grandTotal its index =
     (if index \<ge> length its then
        (case run_commit d of
           (d', commitErr) \<Rightarrow>
             if commitErr then (d', Failed (TransactionFailure ''Transaction failed.''))
             else (d', Created invoiceNumber saleId (length its) grandTotal))
      else
        let it = its ! index;
            seen = (if sched index then stale else products (tabs d))
        in
        case seen (product_id it) of
          None \<Rightarrow> (rollback_or_exit d, Failed (ProductNotFound (product_id it)))
        | Some p \<Rightarrow>
            if quantity p < item_quantity it then
              (rollback_or_exit d,
               Failed (InsufficientStock (name p) (quantity p) (item_quantity it)))
            else
              case insert_sale_item d saleId (product_id it) (item_quantity it) (price it)
                     (or_num (total it) (item_quantity it * price it)) of
                None \<Rightarrow> (process_exit d, Crashed)
              | Some d1 \<Rightarrow>
                  let newQty = js_minus (quantity p) (item_quantity it);
                      d2 = update_stock d1 newQty (newStatus newQty (min_stock p)) (product_id it)
                  in processNext sched d2 (products (tabs d)) invoiceNumber saleId grandTotal its
                       (index + 1))"
  by pat_completeness auto
termination
  by (relation "measure (\<lambda>(sched, d, stale, ino, sid, gt, its, index). length its - index)") auto

declare processNext.simps [simp del]

text \<open>The handler. \<^verbatim>\<open>invoiceNumber\<close> (made from the clock and a random number) and
  \<^verbatim>\<open>req.userId\<close> are arguments. Nothing checks the INSERT of the header: when it fails the
  process exits, as it does when BEGIN fails.\<close>

definition createSale ::
  "(nat \<Rightarrow> bool) \<Rightarrow> db \<Rightarrow> string \<Rightarrow> int \<Rightarrow> sale_request \<Rightarrow> db \<times> response" where
  "createSale sched d invoiceNumber userId req =
     (case items req of
        ItemsAbsent \<Rightarrow> (d, Failed (ValidationError ''No items provided.''))
      | ItemsNotArray \<Rightarrow> (d, Failed (ValidationError ''No items provided.''))
      | ItemsArray its \<Rightarrow>
          if length its = 0 then (d, Failed (ValidationError ''No items provided.''))
          else if \<not> truthy (grand_total req) then
            (d, Failed (ValidationError ''Grand total is required.''))
          else
            case run_begin d of
              None \<Rightarrow> (process_exit d, Crashed)
            | Some d1 \<Rightarrow>
                case insert_sale d1 invoiceNumber userId
                       (js_or (customer_name req) (JStr ''Walk-in Customer''))
                       (js_or (subtotal req) (JNum 0)) (js_or (tax req) (JNum 0))
                       (js_or (discount req) (JNum 0))
                       (grand_total req) (js_or (payment_method req) (JStr ''cash'')) of
                  None \<Rightarrow> (process_exit d1, Crashed)
                | Some d2 \<Rightarrow>
                    processNext sched d2 (products (tabs d2)) invoiceNumber
                      (last_insert_rowid d2) (grand_total req) its 0)"

section \<open>DELETE /api/sales/:id\<close>

text \<open>The handler reads the sale's items and then, inside \<^verbatim>\<open>db.serialize\<close> and so in order,
  begins a transaction, adds each item's quantity back to its product, and deletes the items
  and the sale. From the callback of the last DELETE it rolls back when no sale row was
  deleted and commits otherwise; the callback of COMMIT answers success whatever COMMIT
  reports.\<close>

definition voidSale :: "db \<Rightarrow> int \<Rightarrow> db \<times> response" where
  "voidSale d sid =
     (let its = filter (\<lambda>r. si_sale_id r = sid) (sale_items (tabs d)) in
      case run_begin d of
        None \<Rightarrow> (process_exit d, Crashed)
      | Some d1 \<Rightarrow>
          let d2 = foldl (\<lambda>s r. restore_stock s (si_quantity r) (si_product_id r)) d1 its;
              d3 = delete_sale_items d2 sid
          in case delete_sale d3 sid of
               (d4, changes) \<Rightarrow>
                 if changes = 0 then (rollback_or_exit d4, Failed SaleNotFound)
                 else (fst (run_commit d4), Voided))"

section \<open>Notions used to state the properties\<close>

text \<open>The two extreme schedules: every SELECT after the UPDATE before it, and every SELECT
  ahead of it.\<close>

definition in_order :: "nat \<Rightarrow> bool" where
  "in_order k = False"

definition overtaking :: "nat \<Rightarrow> bool" where
  "overtaking k = True"

text \<open>The products as the SELECT of pass \<open>index\<close> reads them.\<close>

definition seen_products :: "(nat \<Rightarrow> bool) \<Rightarrow> db \<Rightarrow> (int \<rightharpoonup> product) \<Rightarrow> nat \<Rightarrow> (int \<rightharpoonup> product)" where
  "seen_products sched d stale index = (if sched index then stale else products (tabs d))"

text \<open>The connection after the INSERT of an item, and after the pass that found product \<open>p\<close>
  with enough stock: the item row inserted and the stock written.\<close>

definition item_inserted :: "db \<Rightarrow> int \<Rightarrow> item \<Rightarrow> db" where
  "item_inserted d saleId it =
     d\<lparr>tabs := (tabs d)
          \<lparr>sale_items := sale_items (tabs d) @
             [\<lparr>si_id = next_rowid (sale_items_seq (tabs d)) (map si_id (sale_items (tabs d))),
               si_sale_id = saleId, si_product_id = product_id it,
               si_quantity = item_quantity it, si_price = price it,
               si_total = or_num (total it) (item_quantity it * price it)\<rparr>],
           sale_items_seq := next_rowid (sale_items_seq (tabs d)) (map si_id (sale_items (tabs d)))\<rparr>,
       last_insert_rowid := next_rowid (sale_items_seq (tabs d)) (map si_id (sale_items (tabs d)))\<rparr>"

definition item_applied :: "db \<Rightarrow> int \<Rightarrow> item \<Rightarrow> product \<Rightarrow> db" where
  "item_applied d saleId it p =
     update_stock (item_inserted d saleId it)
       (js_minus (quantity p) (item_quantity it))
       (newStatus (js_minus (quantity p) (item_quantity it)) (min_stock p)) (product_id it)"

text \<open>The connection after BEGIN and the INSERT of the sale header.\<close>

definition header_inserted :: "db \<Rightarrow> string \<Rightarrow> int \<Rightarrow> sale_request \<Rightarrow> db" where
  "header_inserted d ino uid req =
     d\<lparr>txn := Some (tabs d),
       tabs := (tabs d)
          \<lparr>sales := sales (tabs d) @
             [\<lparr>s_id = next_rowid (sales_seq (tabs d)) (map s_id (sales (tabs d))),
               s_invoice_number = ino, s_user_id = uid,
               s_customer_name = js_or (customer_name req) (JStr ''Walk-in Customer''),
               s_subtotal = js_or (subtotal req) (JNum 0), s_tax = js_or (tax req) (JNum 0),
               s_discount = js_or (discount req) (JNum 0), s_grand_total = grand_total req,
               s_payment_method = js_or (payment_method req) (JStr ''cash'')\<rparr>],
           sales_seq := next_rowid (sales_seq (tabs d)) (map s_id (sales (tabs d)))\<rparr>,
       last_insert_rowid := next_rowid (sales_seq (tabs d)) (map s_id (sales (tabs d)))\<rparr>"

text \<open>The columns of a \<^verbatim>\<open>sale_items\<close> row other than its own id, and the columns the loop
  writes for an item.\<close>

definition row_data :: "sale_item \<Rightarrow> int \<times> int \<times> int \<times> int \<times> int" where
  "row_data r = (si_sale_id r, si_product_id r, si_quantity r, si_price r, si_total r)"


text \<open>The stored quantity of a product.\<close>

definition stock :: "db \<Rightarrow> int \<Rightarrow> int option" where
  "stock d pid = map_option quantity (products (tabs d) pid)"

text \<open>The invariant of the data model: every product's stored status is the one derived from
  its quantity and threshold.\<close>

definition status_derived :: "tables \<Rightarrow> bool" where
  "status_derived t =
     (\<forall>pid p. products t pid = Some p \<longrightarrow> status p = newStatus (quantity p) (min_stock p))"

section \<open>Example data\<close>

text \<open>A shop with product A (five in stock, threshold two), product B (one in stock,
  threshold five), one user and no sales yet; an item at unit price 10 without a total of its
  own; a request that leaves every optional field out; and the shop after a first sale of
  three A, invoice INV-1.\<close>

definition shop :: db where
  "shop =
     \<lparr>tabs = \<lparr>products = [1 \<mapsto> \<lparr>name = ''A'', quantity = 5, min_stock = 2, status = in_stock\<rparr>,
                           2 \<mapsto> \<lparr>name = ''B'', quantity = 1, min_stock = 5, status = low_stock\<rparr>],
             sales = [], sale_items = [], users = {1}, sales_seq = 0, sale_items_seq = 0\<rparr>,
      txn = None, last_insert_rowid = 0\<rparr>"

definition sell :: "int \<Rightarrow> int \<Rightarrow> item" where
  "sell pid n = \<lparr>product_id = pid, item_quantity = n, price = 10, total = None\<rparr>"

definition sale_of :: "item list \<Rightarrow> jsvalue \<Rightarrow> sale_request" where
  "sale_of its gt =
     \<lparr>customer_name = JUndefined, items = ItemsArray its, subtotal = JUndefined,
      tax = JUndefined, discount = JUndefined, grand_total = gt, payment_method = JUndefined\<rparr>"

definition shop_after_sale :: db where
  "shop_after_sale =
     \<lparr>tabs = \<lparr>products = [1 \<mapsto> \<lparr>name = ''A'', quantity = 2, min_stock = 2, status = low_stock\<rparr>,
                           2 \<mapsto> \<lparr>name = ''B'', quantity = 1, min_stock = 5, status = low_stock\<rparr>],
             sales = [\<lparr>s_id = 1, s_invoice_number = ''INV-1'', s_user_id = 1,
                       s_customer_name = JStr ''Walk-in Customer'', s_subtotal = JNum 0,
                       s_tax = JNum 0, s_discount = JNum 0, s_grand_total = JNum 30,
                       s_payment_method = JStr ''cash''\<rparr>],
             sale_items = [\<lparr>si_id = 1, si_sale_id = 1, si_product_id = 1, si_quantity = 3,
                            si_price = 10, si_total = 30\<rparr>],
             users = {1}, sales_seq = 1, sale_items_seq = 1\<rparr>,
      txn = None, last_insert_rowid = 1\<rparr>"

section \<open>Facts about the statements and the loop\<close>

subsection \<open>Statements\<close>

lemma insert_sale_item_eq:
  "insert_sale_item d sid (product_id it) (item_quantity it) (price it)
     (or_num (total it) (item_quantity it * price it)) =
   (if sid \<in> set (map s_id (sales (tabs d))) \<and> product_id it \<in> dom (products (tabs d))
    then Some (item_inserted d sid it) else None)"
  by (simp add: insert_sale_item_def item_inserted_def Let_def)

lemma item_inserted_simps [simp]:
  "txn (item_inserted d sid it) = txn d"
  "sales (tabs (item_inserted d sid it)) = sales (tabs d)"
  "products (tabs (item_inserted d sid it)) = products (tabs d)"
  "users (tabs (item_inserted d sid it)) = users (tabs d)"
  by (simp_all add: item_inserted_def)

lemma update_stock_simps [simp]:
  "txn (update_stock d n st pid) = txn d"
  "sales (tabs (update_stock d n st pid)) = sales (tabs d)"
  "sale_items (tabs (update_stock d n st pid)) = sale_items (tabs d)"
  "users (tabs (update_stock d n st pid)) = users (tabs d)"
  "last_insert_rowid (update_stock d n st pid) = last_insert_rowid d"
  by (cases "products (tabs d) pid"; simp add: update_stock_def Let_def)+

lemma update_stock_products:
  "products (tabs d) pid = Some p \<Longrightarrow>
   products (tabs (update_stock d n st pid)) = (products (tabs d))(pid \<mapsto> p\<lparr>quantity := n, status := st\<rparr>)"
  by (simp add: update_stock_def Let_def)

lemma item_applied_simps [simp]:
  "txn (item_applied d sid it p) = txn d"
  "sales (tabs (item_applied d sid it p)) = sales (tabs d)"
  "users (tabs (item_applied d sid it p)) = users (tabs d)"
  by (simp_all add: item_applied_def)

lemma item_applied_products:
  "products (tabs d) (product_id it) = Some c \<Longrightarrow>
   products (tabs (item_applied d sid it p)) =
     (products (tabs d))(product_id it \<mapsto>
        c\<lparr>quantity := js_minus (quantity p) (item_quantity it),
          status := newStatus (js_minus (quantity p) (item_quantity it)) (min_stock p)\<rparr>)"
  by (simp add: item_applied_def update_stock_products)


lemma stock_item_applied:
  "products (tabs d) (product_id it) = Some c \<Longrightarrow>
   stock (item_applied d sid it p) pid =
     (if pid = product_id it then Some (js_minus (quantity p) (item_quantity it)) else stock d pid)"
  by (simp add: stock_def item_applied_products)

lemma rollback_or_exit_open:
  "txn d = Some t0 \<Longrightarrow> rollback_or_exit d = d\<lparr>tabs := t0, txn := None\<rparr>"
  by (simp add: rollback_or_exit_def run_rollback_def)

lemma process_exit_simps [simp]:
  "txn (process_exit d) = None"
  "last_insert_rowid (process_exit d) = 0"
  "txn d = Some t0 \<Longrightarrow> tabs (process_exit d) = t0"
  "txn d = None \<Longrightarrow> tabs (process_exit d) = tabs d"
  by (simp_all add: process_exit_def)

lemma restore_stock_simps [simp]:
  "txn (restore_stock d q pid) = txn d"
  "sales (tabs (restore_stock d q pid)) = sales (tabs d)"
  "sale_items (tabs (restore_stock d q pid)) = sale_items (tabs d)"
  by (cases "products (tabs d) pid"; simp add: restore_stock_def Let_def)+

lemma foldl_restore_simps [simp]:
  "txn (foldl (\<lambda>s r. restore_stock s (si_quantity r) (si_product_id r)) d rows) = txn d"
  by (induction rows arbitrary: d; simp)

subsection \<open>Double arithmetic\<close>

lemma bit_length_le: "n < 2 ^ k \<Longrightarrow> bit_length n \<le> k"
proof (induction k arbitrary: n)
  case 0
  then show ?case by (simp add: bit_length.simps)
next
  case (Suc k)
  show ?case
  proof (cases "n = 0")
    case True
    then show ?thesis by (simp add: bit_length.simps)
  next
    case False
    have "n div 2 < 2 ^ k" using Suc.prems by simp
    from Suc.IH [OF this] False show ?thesis by (subst bit_length.simps) simp
  qed
qed

lemma round_double_exact: "\<bar>x\<bar> < 9007199254740992 \<Longrightarrow> round_double x = x"
proof -
  assume a: "\<bar>x\<bar> < 9007199254740992"
  have "(9007199254740992 :: nat) = 2 ^ 53" by simp
  then have "nat \<bar>x\<bar> < 2 ^ 53" using a by linarith
  then have "bit_length (nat \<bar>x\<bar>) \<le> 53" by (rule bit_length_le)
  then show ?thesis by (simp add: round_double_def Let_def)
qed

lemma js_minus_exact: "\<bar>a - b\<bar> < 9007199254740992 \<Longrightarrow> js_minus a b = a - b"
  by (simp add: js_minus_def round_double_exact)





subsection \<open>One pass of the loop\<close>

lemma processNext_done:
  "length its \<le> index \<Longrightarrow>
   processNext sched d stale ino sid gt its index =
     (case txn d of None \<Rightarrow> (d, Failed (TransactionFailure ''Transaction failed.''))
      | Some _ \<Rightarrow> (d\<lparr>txn := None\<rparr>, Created ino sid (length its) gt))"
  by (simp add: processNext.simps [of sched d stale ino sid gt its index] run_commit_def
      split: option.splits)

lemma processNext_missing:
  "index < length its \<Longrightarrow> seen_products sched d stale index (product_id (its ! index)) = None \<Longrightarrow>
   processNext sched d stale ino sid gt its index =
     (rollback_or_exit d, Failed (ProductNotFound (product_id (its ! index))))"
  by (simp add: processNext.simps [of sched d stale ino sid gt its index] seen_products_def)

lemma processNext_short:
  "index < length its \<Longrightarrow>
   seen_products sched d stale index (product_id (its ! index)) = Some p \<Longrightarrow>
   quantity p < item_quantity (its ! index) \<Longrightarrow>
   processNext sched d stale ino sid gt its index =
     (rollback_or_exit d,
      Failed (InsufficientStock (name p) (quantity p) (item_quantity (its ! index))))"
  by (simp add: processNext.simps [of sched d stale ino sid gt its index] seen_products_def)

lemma processNext_step:
  "index < length its \<Longrightarrow>
   seen_products sched d stale index (product_id (its ! index)) = Some p \<Longrightarrow>
   item_quantity (its ! index) \<le> quantity p \<Longrightarrow>
   sid \<in> set (map s_id (sales (tabs d))) \<Longrightarrow>
   product_id (its ! index) \<in> dom (products (tabs d)) \<Longrightarrow>
   processNext sched d stale ino sid gt its index =
     processNext sched (item_applied d sid (its ! index) p) (products (tabs d)) ino sid gt its
       (Suc index)"
  by (simp add: processNext.simps [of sched d stale ino sid gt its index] seen_products_def
      insert_sale_item_eq item_applied_def Let_def del: set_map)

lemma processNext_crash:
  "index < length its \<Longrightarrow>
   seen_products sched d stale index (product_id (its ! index)) = Some p \<Longrightarrow>
   item_quantity (its ! index) \<le> quantity p \<Longrightarrow>
   \<not> (sid \<in> set (map s_id (sales (tabs d))) \<and>
      product_id (its ! index) \<in> dom (products (tabs d))) \<Longrightarrow>
   processNext sched d stale ino sid gt its index = (process_exit d, Crashed)"
  by (auto simp add: processNext.simps [of sched d stale ino sid gt its index] seen_products_def
      insert_sale_item_eq Let_def simp del: set_map)

lemma processNext_cases [case_names finished missing short step crash]:
  assumes "length its \<le> index \<Longrightarrow> P"
    and "index < length its \<Longrightarrow>
           seen_products sched d stale index (product_id (its ! index)) = None \<Longrightarrow> P"
    and "\<And>p. index < length its \<Longrightarrow>
           seen_products sched d stale index (product_id (its ! index)) = Some p \<Longrightarrow>
           quantity p < item_quantity (its ! index) \<Longrightarrow> P"
    and "\<And>p. index < length its \<Longrightarrow>
           seen_products sched d stale index (product_id (its ! index)) = Some p \<Longrightarrow>
           item_quantity (its ! index) \<le> quantity p \<Longrightarrow>
           sid \<in> set (map s_id (sales (tabs d))) \<Longrightarrow>
           product_id (its ! index) \<in> dom (products (tabs d)) \<Longrightarrow> P"
    and "\<And>p. index < length its \<Longrightarrow>
           seen_products sched d stale index (product_id (its ! index)) = Some p \<Longrightarrow>
           item_quantity (its ! index) \<le> quantity p \<Longrightarrow>
           \<not> (sid \<in> set (map s_id (sales (tabs d))) \<and>
              product_id (its ! index) \<in> dom (products (tabs d))) \<Longrightarrow> P"
  shows P
proof (cases "index < length its")
  case False
  then show P using assms(1) by simp
next
  case True
  show P
  proof (cases "seen_products sched d stale index (product_id (its ! index))")
    case None
    with True show P using assms(2) by simp
  next
    case (Some p)
    show P
    proof (cases "quantity p < item_quantity (its ! index)")
      case short: True
      with True Some show P using assms(3) by simp
    next
      case enough: False
      then have le: "item_quantity (its ! index) \<le> quantity p" by simp
      show P
      proof (cases "sid \<in> set (map s_id (sales (tabs d))) \<and>
          product_id (its ! index) \<in> dom (products (tabs d))")
        case ok: True
        then show P using assms(4) [OF True Some le] by blast
      next
        case bad: False
        then show P using assms(5) [OF True Some le] by blast
      qed
    qed
  qed
qed

lemma in_order_sees_current: "seen_products in_order d stale index = products (tabs d)"
  by (simp add: seen_products_def in_order_def)

lemma overtaking_sees_stale: "seen_products overtaking d stale index = stale"
  by (simp add: seen_products_def overtaking_def)

subsection \<open>The whole loop\<close>



lemma processNext_closes_transaction:
  "txn d = Some t0 \<Longrightarrow> processNext sched d stale ino sid gt its index = (d', r) \<Longrightarrow> txn d' = None"
proof (induction "length its - index" arbitrary: d stale index)
  case 0
  then show ?case by (auto simp: processNext_done)
next
  case (Suc k)
  show ?case
  proof (cases rule: processNext_cases [where its=its and index=index and d=d and sched=sched
        and stale=stale and sid=sid])
    case finished
    with Suc.prems show ?thesis by (auto simp: processNext_done)
  next
    case missing
    with Suc.prems show ?thesis by (auto simp: processNext_missing rollback_or_exit_open)
  next
    case (short p)
    with Suc.prems show ?thesis by (auto simp: processNext_short rollback_or_exit_open)
  next
    case (step p)
    let ?d1 = "item_applied d sid (its ! index) p"
    have "k = length its - Suc index" using Suc.hyps(2) by simp
    moreover have "txn ?d1 = Some t0" using Suc.prems(1) by simp
    moreover have "processNext sched ?d1 (products (tabs d)) ino sid gt its (Suc index) = (d', r)"
      using Suc.prems(2) processNext_step [OF step, of ino gt] by simp
    ultimately show ?thesis by (rule Suc.hyps(1))
  next
    case (crash p)
    with Suc.prems(2) show ?thesis using processNext_crash [OF crash, of ino gt] by auto
  qed
qed



subsection \<open>The handlers\<close>

lemma run_begin_closed:
  "txn d = None \<Longrightarrow> run_begin d = Some (d\<lparr>txn := Some (tabs d)\<rparr>)"
  by (simp add: run_begin_def)

lemma header_inserted_simps [simp]:
  "products (tabs (header_inserted d ino uid req)) = products (tabs d)"
  "sale_items (tabs (header_inserted d ino uid req)) = sale_items (tabs d)"
  "users (tabs (header_inserted d ino uid req)) = users (tabs d)"
  "txn (header_inserted d ino uid req) = Some (tabs d)"
  "last_insert_rowid (header_inserted d ino uid req) =
     next_rowid (sales_seq (tabs d)) (map s_id (sales (tabs d)))"
  by (simp_all add: header_inserted_def)

lemma header_inserted_sales:
  "\<exists>row. sales (tabs (header_inserted d ino uid req)) = sales (tabs d) @ [row] \<and>
     s_id row = next_rowid (sales_seq (tabs d)) (map s_id (sales (tabs d))) \<and>
     s_grand_total row = grand_total req"
  by (simp add: header_inserted_def)

lemma createSale_invalid:
  "items req = ItemsAbsent \<or> items req = ItemsNotArray \<or> items req = ItemsArray [] \<or>
   \<not> truthy (grand_total req) \<Longrightarrow>
   \<exists>m. createSale sched d ino uid req = (d, Failed (ValidationError m))"
  by (auto simp add: createSale_def split: items_field.splits)

lemma createSale_valid:
  "items req = ItemsArray its \<Longrightarrow> its \<noteq> [] \<Longrightarrow> truthy (grand_total req) \<Longrightarrow> txn d = None \<Longrightarrow>
   sale_insertable (tabs d) ino uid (js_or (payment_method req) (JStr ''cash'')) \<Longrightarrow>
   createSale sched d ino uid req =
     processNext sched (header_inserted d ino uid req) (products (tabs d)) ino
       (next_rowid (sales_seq (tabs d)) (map s_id (sales (tabs d)))) (grand_total req) its 0"
  by (simp add: createSale_def run_begin_closed insert_sale_def header_inserted_def Let_def)

lemma createSale_header_fails:
  "items req = ItemsArray its \<Longrightarrow> its \<noteq> [] \<Longrightarrow> truthy (grand_total req) \<Longrightarrow> txn d = None \<Longrightarrow>
   \<not> sale_insertable (tabs d) ino uid (js_or (payment_method req) (JStr ''cash'')) \<Longrightarrow>
   createSale sched d ino uid req =
     (\<lparr>tabs = tabs d, txn = None, last_insert_rowid = 0\<rparr>, Crashed)"
  by (simp add: createSale_def run_begin_closed insert_sale_def process_exit_def Let_def)


lemma createSale_cases [case_names invalid crash valid]:
  assumes "items req = ItemsAbsent \<or> items req = ItemsNotArray \<or> items req = ItemsArray [] \<or>
      \<not> truthy (grand_total req) \<Longrightarrow> P"
    and "\<And>its. items req = ItemsArray its \<Longrightarrow> its \<noteq> [] \<Longrightarrow> truthy (grand_total req) \<Longrightarrow>
      \<not> sale_insertable (tabs d) ino uid (js_or (payment_method req) (JStr ''cash'')) \<Longrightarrow> P"
    and "\<And>its. items req = ItemsArray its \<Longrightarrow> its \<noteq> [] \<Longrightarrow> truthy (grand_total req) \<Longrightarrow>
      sale_insertable (tabs d) ino uid (js_or (payment_method req) (JStr ''cash'')) \<Longrightarrow> P"
  shows P
proof (cases "items req")
  case (ItemsArray its)
  then show P using assms
    by (cases "its = []"; cases "truthy (grand_total req)";
        cases "sale_insertable (tabs d) ino uid (js_or (payment_method req) (JStr ''cash''))") auto
qed (use assms in auto)

text \<open>Both handlers leave no transaction open, so a request that follows another on the
  connection starts with none open.\<close>

lemma createSale_closes_transaction:
  assumes "txn d = None"
  shows "txn (fst (createSale sched d ino uid req)) = None"
proof (cases rule: createSale_cases [where req=req and d=d and ino=ino and uid=uid])
  case invalid
  then obtain m where "createSale sched d ino uid req = (d, Failed (ValidationError m))"
    using createSale_invalid by blast
  with assms show ?thesis by simp
next
  case (crash its)
  with assms show ?thesis by (simp add: createSale_header_fails)
next
  case (valid its)
  let ?h = "header_inserted d ino uid req"
  have t: "txn ?h = Some (tabs d)" by simp
  have "processNext sched ?h (products (tabs d)) ino
        (next_rowid (sales_seq (tabs d)) (map s_id (sales (tabs d)))) (grand_total req) its 0 =
      (fst (createSale sched d ino uid req), snd (createSale sched d ino uid req))"
    using valid assms by (simp add: createSale_valid)
  from processNext_closes_transaction [OF t this] show ?thesis .
qed

lemma voidSale_closes_transaction:
  assumes "txn d = None"
  shows "txn (fst (voidSale d sid)) = None"
proof -
  let ?rows = "filter (\<lambda>r. si_sale_id r = sid) (sale_items (tabs d))"
  let ?d1 = "d\<lparr>txn := Some (tabs d)\<rparr>"
  let ?d2 = "foldl (\<lambda>s r. restore_stock s (si_quantity r) (si_product_id r)) ?d1 ?rows"
  let ?d4 = "fst (delete_sale (delete_sale_items ?d2 sid) sid)"
  have "txn ?d2 = Some (tabs d)" by simp
  then have "txn ?d4 = Some (tabs d)"
    by (simp add: delete_sale_def delete_sale_items_def Let_def)
  then show ?thesis
    using assms
    by (simp add: voidSale_def run_begin_closed Let_def run_commit_def rollback_or_exit_open
        delete_sale_def delete_sale_items_def split: prod.splits)
qed

subsection \<open>Evaluation of the examples\<close>

lemmas run_defs = createSale_def run_begin_def insert_sale_def sale_insertable_def
  insert_sale_item_def update_stock_def run_rollback_def rollback_or_exit_def process_exit_def
  run_commit_def next_rowid_def or_num_def js_or_def truthy_def newStatus_def js_minus_exact
  Let_def shop_def sell_def sale_of_def processNext.simps voidSale_def restore_stock_def
  delete_sale_items_def delete_sale_def in_order_def overtaking_def

lemma shop_after_sale_reached:
  "createSale in_order shop ''INV-1'' 1 (sale_of [sell 1 3] (JNum 30)) = (d, r) \<Longrightarrow>
   r = Created ''INV-1'' 1 1 (JNum 30) \<and> txn d = txn shop_after_sale \<and>
   last_insert_rowid d = last_insert_rowid shop_after_sale \<and>
   sales (tabs d) = sales (tabs shop_after_sale) \<and>
   sale_items (tabs d) = sale_items (tabs shop_after_sale) \<and>
   users (tabs d) = users (tabs shop_after_sale) \<and>
   sales_seq (tabs d) = sales_seq (tabs shop_after_sale) \<and>
   sale_items_seq (tabs d) = sale_items_seq (tabs shop_after_sale) \<and>
   products (tabs d) 1 = products (tabs shop_after_sale) 1 \<and>
   products (tabs d) 2 = products (tabs shop_after_sale) 2"
  by (auto simp add: run_defs shop_after_sale_def)

subsection \<open>Status after a sale\<close>

text \<open>\<^verbatim>\<open>createSale\<close> keeps the stored status of every product equal to the derived one,
  whatever the schedule: each UPDATE writes the status that belongs to the quantity it
  writes.\<close>

lemma status_derived_item_applied:
  assumes "products (tabs d) (product_id it) = Some c" and "min_stock p = min_stock c"
    and "status_derived (tabs d)"
  shows "status_derived (tabs (item_applied d sid it p))"
  using assms by (simp add: status_derived_def item_applied_products)

lemma processNext_status_derived:
  "txn d = Some t0 \<Longrightarrow> status_derived t0 \<Longrightarrow> status_derived (tabs d) \<Longrightarrow>
   \<forall>pid. map_option min_stock (stale pid) = map_option min_stock (products (tabs d) pid) \<Longrightarrow>
   processNext sched d stale ino sid gt its index = (d', r) \<Longrightarrow> status_derived (tabs d')"
proof (induction "length its - index" arbitrary: d stale index)
  case 0
  then show ?case by (auto simp: processNext_done)
next
  case (Suc k)
  show ?case
  proof (cases rule: processNext_cases [where its=its and index=index and d=d and sched=sched
        and stale=stale and sid=sid])
    case finished
    with Suc.prems show ?thesis by (auto simp: processNext_done)
  next
    case missing
    with Suc.prems show ?thesis by (auto simp: processNext_missing rollback_or_exit_open)
  next
    case (short p)
    with Suc.prems show ?thesis by (auto simp: processNext_short rollback_or_exit_open)
  next
    case (crash p)
    with Suc.prems show ?thesis using processNext_crash [OF crash, of ino gt] by auto
  next
    case (step p)
    let ?it = "its ! index"
    let ?d1 = "item_applied d sid ?it p"
    from step(5) obtain c where c: "products (tabs d) (product_id ?it) = Some c" by auto
    have "map_option min_stock (seen_products sched d stale index (product_id ?it)) =
        map_option min_stock (products (tabs d) (product_id ?it))"
      using Suc.prems(4) by (simp add: seen_products_def)
    with step(2) c have m: "min_stock p = min_stock c" by simp
    have "k = length its - Suc index" using Suc.hyps(2) by simp
    moreover have "txn ?d1 = Some t0" using Suc.prems(1) by simp
    moreover note Suc.prems(2)
    moreover have "status_derived (tabs ?d1)"
      using c m Suc.prems(3) by (rule status_derived_item_applied)
    moreover have "\<forall>pid. map_option min_stock (products (tabs d) pid) =
        map_option min_stock (products (tabs ?d1) pid)"
      using c by (simp add: item_applied_products)
    moreover have "processNext sched ?d1 (products (tabs d)) ino sid gt its (Suc index) = (d', r)"
      using Suc.prems(5) processNext_step [OF step, of ino gt] by simp
    ultimately show ?thesis by (rule Suc.hyps(1))
  qed
qed

lemma createSale_keeps_status_derived:
  assumes "txn d = None" and "status_derived (tabs d)"
  shows "status_derived (tabs (fst (createSale sched d ino uid req)))"
proof (cases rule: createSale_cases [where req=req and d=d and ino=ino and uid=uid])
  case invalid
  then obtain m where "createSale sched d ino uid req = (d, Failed (ValidationError m))"
    using createSale_invalid by blast
  with assms(2) show ?thesis by simp
next
  case (crash its)
  with assms show ?thesis by (simp add: createSale_header_fails)
next
  case (valid its)
  let ?h = "header_inserted d ino uid req"
  have c: "createSale sched d ino uid req =
      processNext sched ?h (products (tabs d)) ino
        (next_rowid (sales_seq (tabs d)) (map s_id (sales (tabs d)))) (grand_total req) its 0"
    using valid assms(1) by (simp add: createSale_valid)
  have t: "txn ?h = Some (tabs d)" by simp
  have s: "status_derived (tabs ?h)" using assms(2) by (simp add: status_derived_def)
  have j: "\<forall>pid. map_option min_stock (products (tabs d) pid) =
      map_option min_stock (products (tabs ?h) pid)" by simp
  have "processNext sched ?h (products (tabs d)) ino
        (next_rowid (sales_seq (tabs d)) (map s_id (sales (tabs d)))) (grand_total req) its 0 =
      (fst (createSale sched d ino uid req), snd (createSale sched d ino uid req))"
    using c by simp
  from processNext_status_derived [OF t assms(2) s j this] show ?thesis .
qed

subsection \<open>Sales of pairwise different products\<close>



subsection \<open>Two items for one product\<close>

text \<open>Run in order, the second of two items for one product is checked against what the
  first has left. When its SELECT overtakes the UPDATE of the first, it is checked against the
  stock from before the sale, and its own UPDATE overwrites the decrement of the first.\<close>

lemma same_product_twice_in_order:
  assumes "txn d = None"
    and "items req = ItemsArray (i1 # i2 # rest)"
    and "truthy (grand_total req)"
    and "sale_insertable (tabs d) ino uid (js_or (payment_method req) (JStr ''cash''))"
    and "product_id i2 = product_id i1"
    and "products (tabs d) (product_id i1) = Some p"
    and "item_quantity i1 \<le> quantity p"
    and "item_quantity i2 \<le> quantity p"
    and "quantity p < item_quantity i1 + item_quantity i2"
    and "\<bar>quantity p - item_quantity i1\<bar> < 9007199254740992"
  shows "snd (createSale in_order d ino uid req) =
           Failed (InsufficientStock (name p) (quantity p - item_quantity i1) (item_quantity i2)) \<and>
         tabs (fst (createSale in_order d ino uid req)) = tabs d \<and>
         txn (fst (createSale in_order d ino uid req)) = None"
proof -
  let ?h = "header_inserted d ino uid req"
  let ?sid = "next_rowid (sales_seq (tabs d)) (map s_id (sales (tabs d)))"
  let ?gt = "grand_total req"
  let ?its = "i1 # i2 # rest"
  let ?d1 = "item_applied ?h ?sid i1 p"
  let ?p' = "p\<lparr>quantity := js_minus (quantity p) (item_quantity i1),
      status := newStatus (js_minus (quantity p) (item_quantity i1)) (min_stock p)\<rparr>"
  have c: "createSale in_order d ino uid req =
      processNext in_order ?h (products (tabs d)) ino ?sid ?gt ?its 0"
    using assms(2) _ assms(3,1,4) by (rule createSale_valid) simp
  from header_inserted_sales [of d ino uid req]
  have s: "?sid \<in> set (map s_id (sales (tabs ?h)))" by auto
  have h: "products (tabs ?h) (product_id i1) = Some p" using assms(6) by simp
  have s1: "processNext in_order ?h (products (tabs d)) ino ?sid ?gt ?its 0 =
      processNext in_order ?d1 (products (tabs ?h)) ino ?sid ?gt ?its (Suc 0)"
    using processNext_step [of 0 ?its in_order ?h "products (tabs d)" p ?sid ino ?gt]
      h assms(7) s by (simp add: in_order_sees_current domI del: set_map)
  have look: "seen_products in_order ?d1 (products (tabs ?h)) (Suc 0) (product_id (?its ! Suc 0)) =
      Some ?p'"
    using item_applied_products [of ?h i1 p ?sid p] h assms(5)
    by (simp add: in_order_sees_current)
  have q: "quantity ?p' = quantity p - item_quantity i1"
    using assms(10) by (simp add: js_minus_exact)
  have lt: "quantity ?p' < item_quantity (?its ! Suc 0)" using assms(9) q by simp
  have s2: "processNext in_order ?d1 (products (tabs ?h)) ino ?sid ?gt ?its (Suc 0) =
      (rollback_or_exit ?d1,
       Failed (InsufficientStock (name ?p') (quantity ?p') (item_quantity (?its ! Suc 0))))"
    using look lt by (intro processNext_short) simp_all
  have t: "txn ?d1 = Some (tabs d)" by simp
  from c s1 s2 q have "createSale in_order d ino uid req =
      (rollback_or_exit ?d1,
       Failed (InsufficientStock (name p) (quantity p - item_quantity i1) (item_quantity i2)))"
    by simp
  with rollback_or_exit_open [OF t] show ?thesis by simp
qed

lemma same_product_twice_overtaking:
  assumes "txn d = None"
    and "items req = ItemsArray [i1, i2]"
    and "truthy (grand_total req)"
    and "sale_insertable (tabs d) ino uid (js_or (payment_method req) (JStr ''cash''))"
    and "product_id i2 = product_id i1"
    and "products (tabs d) (product_id i1) = Some p"
    and "item_quantity i1 \<le> quantity p"
    and "item_quantity i2 \<le> quantity p"
  shows "(\<exists>sid. snd (createSale overtaking d ino uid req) = Created ino sid 2 (grand_total req)) \<and>
         stock (fst (createSale overtaking d ino uid req)) (product_id i1) =
           Some (js_minus (quantity p) (item_quantity i2))"
proof -
  let ?h = "header_inserted d ino uid req"
  let ?sid = "next_rowid (sales_seq (tabs d)) (map s_id (sales (tabs d)))"
  let ?gt = "grand_total req"
  let ?its = "[i1, i2]"
  let ?d1 = "item_applied ?h ?sid i1 p"
  let ?d2 = "item_applied ?d1 ?sid i2 p"
  have c: "createSale overtaking d ino uid req =
      processNext overtaking ?h (products (tabs d)) ino ?sid ?gt ?its 0"
    using assms(2) _ assms(3,1,4) by (rule createSale_valid) simp
  from header_inserted_sales [of d ino uid req]
  have s: "?sid \<in> set (map s_id (sales (tabs ?h)))" by auto
  have h: "products (tabs ?h) (product_id i1) = Some p" using assms(6) by simp
  have s1: "processNext overtaking ?h (products (tabs d)) ino ?sid ?gt ?its 0 =
      processNext overtaking ?d1 (products (tabs ?h)) ino ?sid ?gt ?its (Suc 0)"
    using processNext_step [of 0 ?its overtaking ?h "products (tabs d)" p ?sid ino ?gt]
      h assms(6,7) s by (simp add: overtaking_sees_stale domI del: set_map)
  have d1: "products (tabs ?d1) (product_id i1) =
      Some (p\<lparr>quantity := js_minus (quantity p) (item_quantity i1),
        status := newStatus (js_minus (quantity p) (item_quantity i1)) (min_stock p)\<rparr>)"
    using item_applied_products [of ?h i1 p ?sid p] h by simp
  have s2: "processNext overtaking ?d1 (products (tabs ?h)) ino ?sid ?gt ?its (Suc 0) =
      processNext overtaking ?d2 (products (tabs ?d1)) ino ?sid ?gt ?its (Suc (Suc 0))"
    using processNext_step [of "Suc 0" ?its overtaking ?d1 "products (tabs ?h)" p ?sid ino ?gt]
      h d1 assms(5,8) s by (simp add: overtaking_sees_stale domI del: set_map)
  have s3: "processNext overtaking ?d2 (products (tabs ?d1)) ino ?sid ?gt ?its (Suc (Suc 0)) =
      (?d2\<lparr>txn := None\<rparr>, Created ino ?sid 2 ?gt)"
    by (simp add: processNext_done)
  have r: "createSale overtaking d ino uid req = (?d2\<lparr>txn := None\<rparr>, Created ino ?sid 2 ?gt)"
    using c s1 s2 s3 by simp
  have "stock (?d2\<lparr>txn := None\<rparr>) (product_id i1) = Some (js_minus (quantity p) (item_quantity i2))"
    using stock_item_applied [of ?d1 i2 _ ?sid p "product_id i1"] d1 assms(5)
    by (simp add: stock_def)
  with r show ?thesis by simp
qed

section \<open>Stored status after a void\<close>

text \<open>
  Claim C1, evaluated where it fails. The claim asks that the stored status equals the derived
  one after every stock mutation, the restores of \<^verbatim>\<open>voidSale\<close> included. Selling all five A
  stores quantity 0 and \<open>out_of_stock\<close>; voiding that sale stores quantity 5 again and leaves the
  status \<open>out_of_stock\<close>, while the status derived from quantity 5 and threshold 2 is
  \<open>in_stock\<close>: the UPDATE of \<^verbatim>\<open>voidSale\<close> writes the quantity only.
\<close>

theorem voidSale_status_stale:
  "snd (createSale in_order shop ''INV-1'' 1 (sale_of [sell 1 5] (JNum 50))) =
     Created ''INV-1'' 1 1 (JNum 50) \<and>
   products (tabs (fst (createSale in_order shop ''INV-1'' 1 (sale_of [sell 1 5] (JNum 50))))) 1 =
     Some \<lparr>name = ''A'', quantity = 0, min_stock = 2, status = out_of_stock\<rparr> \<and>
   snd (voidSale (fst (createSale in_order shop ''INV-1'' 1 (sale_of [sell 1 5] (JNum 50)))) 1) =
     Voided \<and>
   products (tabs (fst (voidSale
     (fst (createSale in_order shop ''INV-1'' 1 (sale_of [sell 1 5] (JNum 50)))) 1))) 1 =
     Some \<lparr>name = ''A'', quantity = 5, min_stock = 2, status = out_of_stock\<rparr> \<and>
   newStatus 5 2 = in_stock \<and> spec_deriveStatus 5 2 = in_stock"
  by (simp add: run_defs spec_deriveStatus_def)

section \<open>Failure and rollback\<close>



section \<open>The stock check\<close>

text \<open>
  Claim C3, evaluated where it fails. The claim asks that the check is made against the
  current quantity of the transaction. A has five in stock, threshold two. A sale of 2 and
  then 3 of A, run in order, checks the second item against the remaining 3 and leaves 0 and
  \<open>out_of_stock\<close>; when the SELECT of the second item overtakes the UPDATE of the first, it
  reads 5, and the sale leaves 2 and \<open>low_stock\<close>. A sale of 4 and then 2 of A, run in order,
  fails at the second item with available 1, requested 2; overtaken, the second item passes
  with 1 left, and the sale is committed and leaves 3.
\<close>

theorem stock_check_reads_stale:
  "map_option quantity (products (tabs (fst
     (createSale in_order shop ''INV-1'' 1 (sale_of [sell 1 2, sell 1 3] (JNum 50))))) 1) = Some 0 \<and>
   map_option status (products (tabs (fst
     (createSale in_order shop ''INV-1'' 1 (sale_of [sell 1 2, sell 1 3] (JNum 50))))) 1) =
     Some out_of_stock \<and>
   snd (createSale overtaking shop ''INV-1'' 1 (sale_of [sell 1 2, sell 1 3] (JNum 50))) =
     Created ''INV-1'' 1 2 (JNum 50) \<and>
   map_option quantity (products (tabs (fst
     (createSale overtaking shop ''INV-1'' 1 (sale_of [sell 1 2, sell 1 3] (JNum 50))))) 1) =
     Some 2 \<and>
   map_option status (products (tabs (fst
     (createSale overtaking shop ''INV-1'' 1 (sale_of [sell 1 2, sell 1 3] (JNum 50))))) 1) =
     Some low_stock \<and>
   snd (createSale in_order shop ''INV-1'' 1 (sale_of [sell 1 4, sell 1 2] (JNum 60))) =
     Failed (InsufficientStock ''A'' 1 2) \<and>
   snd (createSale overtaking shop ''INV-1'' 1 (sale_of [sell 1 4, sell 1 2] (JNum 60))) =
     Created ''INV-1'' 1 2 (JNum 60) \<and>
   map_option quantity (products (tabs (fst
     (createSale overtaking shop ''INV-1'' 1 (sale_of [sell 1 4, sell 1 2] (JNum 60))))) 1) =
     Some 3"
  by (simp add: run_defs)

text \<open>Sales of a single item have no such race. The scenario of the specification: selling
  three A leaves two and \<open>low_stock\<close>, selling two more leaves none and \<open>out_of_stock\<close>, and a
  further sale of one fails with available 0, requested 1, changing nothing.\<close>

lemma scenario_sell_out:
  "(let r1 = createSale in_order shop ''INV-1'' 1 (sale_of [sell 1 3] (JNum 30));
        r2 = createSale in_order (fst r1) ''INV-2'' 1 (sale_of [sell 1 2] (JNum 20));
        r3 = createSale in_order (fst r2) ''INV-3'' 1 (sale_of [sell 1 1] (JNum 10))
    in products (tabs (fst r1)) 1 = Some \<lparr>name = ''A'', quantity = 2, min_stock = 2, status = low_stock\<rparr> \<and>
       products (tabs (fst r2)) 1 = Some \<lparr>name = ''A'', quantity = 0, min_stock = 2, status = out_of_stock\<rparr> \<and>
       snd r3 = Failed (InsufficientStock ''A'' 0 1) \<and> tabs (fst r3) = tabs (fst r2))"
proof -
  let ?B = "\<lparr>name = ''B'', quantity = 1, min_stock = 5, status = low_stock\<rparr>"
  let ?s1 = "\<lparr>s_id = 1, s_invoice_number = ''INV-1'', s_user_id = 1,
      s_customer_name = JStr ''Walk-in Customer'', s_subtotal = JNum 0, s_tax = JNum 0,
      s_discount = JNum 0, s_grand_total = JNum 30, s_payment_method = JStr ''cash''\<rparr>"
  let ?s2 = "\<lparr>s_id = 2, s_invoice_number = ''INV-2'', s_user_id = 1,
      s_customer_name = JStr ''Walk-in Customer'', s_subtotal = JNum 0, s_tax = JNum 0,
      s_discount = JNum 0, s_grand_total = JNum 20, s_payment_method = JStr ''cash''\<rparr>"
  let ?i1 = "\<lparr>si_id = 1, si_sale_id = 1, si_product_id = 1, si_quantity = 3, si_price = 10,
      si_total = 30\<rparr>"
  let ?i2 = "\<lparr>si_id = 2, si_sale_id = 2, si_product_id = 1, si_quantity = 2, si_price = 10,
      si_total = 20\<rparr>"
  let ?t1 = "\<lparr>products = [2 \<mapsto> ?B,
        1 \<mapsto> \<lparr>name = ''A'', quantity = 2, min_stock = 2, status = low_stock\<rparr>],
      sales = [?s1], sale_items = [?i1], users = {1}, sales_seq = 1, sale_items_seq = 1\<rparr>"
  let ?t2 = "\<lparr>products = [2 \<mapsto> ?B,
        1 \<mapsto> \<lparr>name = ''A'', quantity = 0, min_stock = 2, status = out_of_stock\<rparr>],
      sales = [?s1, ?s2], sale_items = [?i1, ?i2], users = {1}, sales_seq = 2,
      sale_items_seq = 2\<rparr>"
  let ?d1 = "\<lparr>tabs = ?t1, txn = None, last_insert_rowid = 1\<rparr>"
  let ?d2 = "\<lparr>tabs = ?t2, txn = None, last_insert_rowid = 2\<rparr>"
  have e1: "createSale in_order shop ''INV-1'' 1 (sale_of [sell 1 3] (JNum 30)) =
      (?d1, Created ''INV-1'' 1 1 (JNum 30))"
    by (simp add: run_defs)
  have e2: "createSale in_order ?d1 ''INV-2'' 1 (sale_of [sell 1 2] (JNum 20)) =
      (?d2, Created ''INV-2'' 2 1 (JNum 20))"
    by (simp add: run_defs)
  have e3: "createSale in_order ?d2 ''INV-3'' 1 (sale_of [sell 1 1] (JNum 10)) =
      (\<lparr>tabs = ?t2, txn = None, last_insert_rowid = 3\<rparr>, Failed (InsufficientStock ''A'' 0 1))"
    by (simp add: run_defs)
  show ?thesis by (simp add: Let_def e1 e2 e3)
qed

section \<open>Sequential processing of items\<close>

text \<open>
  Claim C4, evaluated where it fails. The claim asks that the second of two items for the same
  product, neither above the stock and both together above it, fails and that the sale is
  rolled back. Two items of 3 A each on a stock of 5: run in order, the second fails with
  available 2, requested 3, and the tables are unchanged; when the SELECT of the second
  overtakes the UPDATE of the first, both pass, the sale is committed with two rows of 3, and
  the stock is 2.
\<close>

theorem same_product_twice_oversold:
  "snd (createSale in_order shop ''INV-1'' 1 (sale_of [sell 1 3, sell 1 3] (JNum 60))) =
     Failed (InsufficientStock ''A'' 2 3) \<and>
   tabs (fst (createSale in_order shop ''INV-1'' 1 (sale_of [sell 1 3, sell 1 3] (JNum 60)))) =
     tabs shop \<and>
   snd (createSale overtaking shop ''INV-1'' 1 (sale_of [sell 1 3, sell 1 3] (JNum 60))) =
     Created ''INV-1'' 1 2 (JNum 60) \<and>
   map row_data (sale_items (tabs (fst
     (createSale overtaking shop ''INV-1'' 1 (sale_of [sell 1 3, sell 1 3] (JNum 60)))))) =
     [(1, 1, 3, 10, 30), (1, 1, 3, 10, 30)] \<and>
   map_option quantity (products (tabs (fst
     (createSale overtaking shop ''INV-1'' 1 (sale_of [sell 1 3, sell 1 3] (JNum 60))))) 1) =
     Some 2"
  by (simp add: run_defs row_data_def)

section \<open>Voiding a sale\<close>

text \<open>
  Claim C5, evaluated where it fails. The claim asks that voiding a fresh sale gives every
  product the quantity it had before the sale. A sale of 2 and then 3 of A on a stock of 5,
  with the second SELECT overtaking the first UPDATE, is committed and leaves 2; voiding it
  adds 2 and 3 and leaves 7, not 5. Run in order, the sale leaves 0 and the void restores 5.
\<close>

theorem void_after_lost_update:
  "snd (createSale overtaking shop ''INV-1'' 1 (sale_of [sell 1 2, sell 1 3] (JNum 50))) =
     Created ''INV-1'' 1 2 (JNum 50) \<and>
   snd (voidSale (fst
     (createSale overtaking shop ''INV-1'' 1 (sale_of [sell 1 2, sell 1 3] (JNum 50)))) 1) =
     Voided \<and>
   map_option quantity (products (tabs (fst (voidSale (fst
     (createSale overtaking shop ''INV-1'' 1 (sale_of [sell 1 2, sell 1 3] (JNum 50)))) 1))) 1) =
     Some 7 \<and>
   map_option quantity (products (tabs shop) 1) = Some 5 \<and>
   map_option quantity (products (tabs (fst (voidSale (fst
     (createSale in_order shop ''INV-1'' 1 (sale_of [sell 1 2, sell 1 3] (JNum 50)))) 1))) 1) =
     Some 5"
  by (simp add: run_defs)

section \<open>The status derivation\<close>

text \<open>
  Claim C6, as amended. The product editor (create and update) and the sale processor compute
  the same total function of the parsed quantity and threshold: \<open>out_of_stock\<close> iff the quantity
  is 0, \<open>low_stock\<close> iff the quantity is not 0 and at most \<open>min_stock\<close>, \<open>in_stock\<close> otherwise.
  For a quantity that is not negative this is the derivation the specification words.
\<close>

theorem status_derivation_shared:
  "addProduct_status qf mf = newStatus (or_num qf 0) (or_num mf 5) \<and>
   updateProduct_status qf mf = newStatus (or_num qf 0) (or_num mf 5) \<and>
   (newStatus q m = out_of_stock \<longleftrightarrow> q = 0) \<and>
   (newStatus q m = low_stock \<longleftrightarrow> q \<noteq> 0 \<and> q \<le> m) \<and>
   (newStatus q m = in_stock \<longleftrightarrow> q \<noteq> 0 \<and> m < q) \<and>
   (0 \<le> q \<longrightarrow> newStatus q m = spec_deriveStatus q m)"
  by (auto simp: newStatus_def addProduct_status_def updateProduct_status_def
      spec_deriveStatus_def Let_def)

theorem status_derivation_shared_witness:
  "addProduct_status (Some 3) None = low_stock \<and> updateProduct_status (Some 3) None = low_stock \<and>
   newStatus 3 5 = low_stock \<and> (0::int) \<le> 3 \<and> newStatus 3 5 = spec_deriveStatus 3 5"
  using status_derivation_shared [of "Some 3" None 3 5]
  by (simp add: or_num_def newStatus_def)

text \<open>
  Claim C6 as stated fails at a negative quantity: with quantity -1 all three places answer
  \<open>low_stock\<close>, although \<open>0 < quantity\<close> does not hold and the specification's wording gives
  \<open>in_stock\<close>.
\<close>

theorem deriveStatus_negative_counterexample:
  "newStatus (- 1) 0 = low_stock \<and> addProduct_status (Some (- 1)) (Some 1) = low_stock \<and>
   updateProduct_status (Some (- 1)) (Some 1) = low_stock \<and>
   \<not> (0 < (- 1 :: int) \<and> (- 1 :: int) \<le> 0) \<and> spec_deriveStatus (- 1) 0 = in_stock"
  by (simp add: newStatus_def addProduct_status_def updateProduct_status_def
      spec_deriveStatus_def or_num_def)

section \<open>Validation\<close>




section \<open>Quantities that are not positive\<close>




section \<open>The total of a sale item\<close>




section \<open>A sale header that is not inserted\<close>

text \<open>
  Claim C10, as amended. The INSERT of the sale header has no callback and nothing checks its
  result. When the request passes validation and the header cannot be inserted (a payment
  method outside cash, card, online; a duplicate invoice number; an unknown user), the failure
  is raised where nothing handles it and the server process exits: no response is sent, no
  item is processed, and the tables are what they were before the request.
\<close>

theorem createSale_header_failure_exits:
  assumes "txn d = None"
    and "items req = ItemsArray its"
    and "its \<noteq> []"
    and "truthy (grand_total req)"
    and "\<not> sale_insertable (tabs d) ino uid (js_or (payment_method req) (JStr ''cash''))"
  shows "snd (createSale sched d ino uid req) = Crashed \<and>
         tabs (fst (createSale sched d ino uid req)) = tabs d \<and>
         txn (fst (createSale sched d ino uid req)) = None"
  using assms by (simp add: createSale_header_fails)

theorem createSale_header_failure_exits_witness:
  "txn shop_after_sale = None \<and>
   \<not> sale_insertable (tabs shop_after_sale) ''INV-1'' 1 (JStr ''cash'') \<and>
   snd (createSale in_order shop_after_sale ''INV-1'' 1 (sale_of [sell 2 1] (JNum 10))) =
     Crashed \<and>
   tabs (fst (createSale in_order shop_after_sale ''INV-1'' 1 (sale_of [sell 2 1] (JNum 10)))) =
     tabs shop_after_sale"
proof -
  let ?req = "sale_of [sell 2 1] (JNum 10)"
  have t: "txn shop_after_sale = None" by (simp add: shop_after_sale_def)
  have i: "items ?req = ItemsArray [sell 2 1]" by (simp add: sale_of_def)
  have g: "truthy (grand_total ?req)" by (simp add: sale_of_def truthy_def)
  have p: "js_or (payment_method ?req) (JStr ''cash'') = JStr ''cash''"
    by (simp add: sale_of_def js_or_def truthy_def)
  have x: "\<not> sale_insertable (tabs shop_after_sale) ''INV-1'' 1 (JStr ''cash'')"
    by (simp add: sale_insertable_def shop_after_sale_def)
  then have x': "\<not> sale_insertable (tabs shop_after_sale) ''INV-1'' 1
      (js_or (payment_method ?req) (JStr ''cash''))"
    using p by simp
  from createSale_header_failure_exits [OF t i _ g x', of in_order] t x show ?thesis by simp
qed

text \<open>
  Claim C10 as stated fails: it has the loop go on with a stale sale id and commit item rows
  and stock decrements. With payment method \<^verbatim>\<open>bitcoin\<close> the request ends in the exit of the
  process, and neither an item row nor a change of stock is stored.
\<close>

theorem header_failure_commits_nothing_counterexample:
  "\<not> sale_insertable (tabs shop_after_sale) ''INV-2'' 1 (JStr ''bitcoin'') \<and>
   snd (createSale in_order shop_after_sale ''INV-2'' 1
     ((sale_of [sell 2 1] (JNum 10))\<lparr>payment_method := JStr ''bitcoin''\<rparr>)) = Crashed \<and>
   sale_items (tabs (fst (createSale in_order shop_after_sale ''INV-2'' 1
     ((sale_of [sell 2 1] (JNum 10))\<lparr>payment_method := JStr ''bitcoin''\<rparr>)))) =
     sale_items (tabs shop_after_sale) \<and>
   stock (fst (createSale in_order shop_after_sale ''INV-2'' 1
     ((sale_of [sell 2 1] (JNum 10))\<lparr>payment_method := JStr ''bitcoin''\<rparr>))) 2 = Some 1 \<and>
   stock shop_after_sale 2 = Some 1"
  by (simp add: run_defs stock_def shop_after_sale_def)

end
